theory Spec2Isabelle
  imports Main "HOL-Library.Sublist"
begin

section \<open>JavaScript values\<close>

text \<open>
  The values the client code inspects come from parsed JSON bodies and from React state.
  Numbers are integers here (identifiers, flags); no modelled branch depends on a number
  beyond its truthiness.
\<close>

datatype jsval =
    Undefined
  | Null
  | Bool bool
  | Num int
  | Str string
  | Arr "jsval list"
  | Obj "(string \<times> jsval) list"

text \<open>Truthiness, as tested by \<^verbatim>\<open>if (v)\<close>, \<^verbatim>\<open>!v\<close>, \<^verbatim>\<open>a || b\<close> and \<^verbatim>\<open>a && b\<close>.\<close>

fun truthy :: "jsval \<Rightarrow> bool" where
  "truthy Undefined = False"
| "truthy Null = False"
| "truthy (Bool b) = b"
| "truthy (Num n) = (n \<noteq> 0)"
| "truthy (Str s) = (s \<noteq> [])"
| "truthy (Arr _) = True"
| "truthy (Obj _) = True"

text \<open>\<^verbatim>\<open>a || b\<close> yields \<open>a\<close> itself when it is truthy, otherwise \<open>b\<close>.\<close>

definition js_or :: "jsval \<Rightarrow> jsval \<Rightarrow> jsval" where
  "js_or a b = (if truthy a then a else b)"

definition nullish :: "jsval \<Rightarrow> bool" where
  "nullish v = (v = Undefined \<or> v = Null)"

text \<open>
  Reading a property that is not there gives \<^verbatim>\<open>undefined\<close>; so does reading one of the
  property names used by this program from a primitive or an array.  \<open>js_prop\<close> is the read
  \<^verbatim>\<open>v.k\<close> on a value that is not nullish and, since it yields \<open>Undefined\<close> on the
  nullish ones too, it is also the optional read \<^verbatim>\<open>v?.k\<close>.  The plain read \<^verbatim>\<open>v.k\<close>
  throws a TypeError on \<^verbatim>\<open>null\<close> and \<^verbatim>\<open>undefined\<close>; the functions below test \<open>nullish\<close>
  where the source makes such a read unguarded.
\<close>

fun js_prop :: "jsval \<Rightarrow> string \<Rightarrow> jsval" where
  "js_prop (Obj kvs) k = (case map_of kvs k of None \<Rightarrow> Undefined | Some v \<Rightarrow> v)"
| "js_prop _ k = Undefined"

section \<open>Navigation menus\<close>

text \<open>
  A menu entry of \<^verbatim>\<open>Header.js\<close> has \<^verbatim>\<open>path\<close>, \<^verbatim>\<open>label\<close> and \<^verbatim>\<open>roles\<close>; an entry of
  \<^verbatim>\<open>Sidebar.js\<close> has an \<^verbatim>\<open>icon\<close> as well.
\<close>

record menu_item =
  path :: string
  label :: string
  icon :: "string option"
  roles :: "string list"

subsection \<open>Header.js: menuItems\<close>

definition header_baseMenu :: "menu_item list" where
  "header_baseMenu =
     [\<lparr>path = ''/dashboard'', label = ''Dashboard'', icon = None,
       roles = [''staff'', ''approver_level_1'', ''approver_level_2'',
                ''approver-level-1'', ''approver-level-2'', ''finance'', ''admin'']\<rparr>]"

definition header_staffMenu :: "menu_item list" where
  "header_staffMenu =
     [\<lparr>path = ''/requests/my-requests'', label = ''My Requests'', icon = None,
       roles = [''staff'']\<rparr>,
      \<lparr>path = ''/requests/create'', label = ''Create Request'', icon = None,
       roles = [''staff'']\<rparr>]"

definition header_approverMenu :: "menu_item list" where
  "header_approverMenu =
     [\<lparr>path = ''/approvals/pending'', label = ''Pending Approvals'', icon = None,
       roles = [''approver_level_1'', ''approver_level_2'',
                ''approver-level-1'', ''approver-level-2'']\<rparr>,
      \<lparr>path = ''/requests/all'', label = ''All Requests'', icon = None,
       roles = [''approver_level_1'', ''approver_level_2'',
                ''approver-level-1'', ''approver-level-2'']\<rparr>]"

definition header_financeMenu :: "menu_item list" where
  "header_financeMenu =
     [\<lparr>path = ''/requests/approved'', label = ''Approved Requests'', icon = None,
       roles = [''finance'']\<rparr>,
      \<lparr>path = ''/requests/all'', label = ''All Requests'', icon = None,
       roles = [''finance'']\<rparr>]"

definition header_adminMenu :: "menu_item list" where
  "header_adminMenu =
     [\<lparr>path = ''/requests/all'', label = ''All Requests'', icon = None,
       roles = [''admin'']\<rparr>,
      \<lparr>path = ''/admin/users'', label = ''Users'', icon = None,
       roles = [''admin'']\<rparr>,
      \<lparr>path = ''/admin/request-types'', label = ''Request Types'', icon = None,
       roles = [''admin'']\<rparr>,
      \<lparr>path = ''/admin/approval-levels'', label = ''Approval Levels'', icon = None,
       roles = [''admin'']\<rparr>]"

text \<open>
  The loop that removes duplicates: \<open>seenPaths\<close> is the \<^verbatim>\<open>Set\<close> of paths met so far,
  \<open>uniqueMenuItems\<close> the array that \<^verbatim>\<open>push\<close> appends to.
\<close>

fun unique_loop :: "menu_item list \<Rightarrow> string set \<Rightarrow> menu_item list \<Rightarrow> menu_item list" where
  "unique_loop [] seenPaths uniqueMenuItems = uniqueMenuItems"
| "unique_loop (item # rest) seenPaths uniqueMenuItems =
     (if path item \<notin> seenPaths
      then unique_loop rest (insert (path item) seenPaths) (uniqueMenuItems @ [item])
      else unique_loop rest seenPaths uniqueMenuItems)"

definition header_allMenuItems :: "jsval \<Rightarrow> menu_item list" where
  "header_allMenuItems u =
     (let role = js_or (js_prop u ''role'') (Str ''staff'');
          isSuperuser = js_or (js_prop u ''is_superuser'') (Bool False);
          allMenuItems = header_baseMenu
      in if truthy isSuperuser then
           (if role \<noteq> Str ''admin''
            then allMenuItems @ header_staffMenu @ header_approverMenu
                   @ header_financeMenu @ header_adminMenu
            else allMenuItems @ header_adminMenu)
         else if role = Str ''staff'' then allMenuItems @ header_staffMenu
         else if role = Str ''approver_level_1'' \<or> role = Str ''approver_level_2''
                 \<or> role = Str ''approver-level-1'' \<or> role = Str ''approver-level-2''
           then allMenuItems @ header_approverMenu
         else if role = Str ''finance'' then allMenuItems @ header_financeMenu
         else if role = Str ''admin'' then allMenuItems @ header_adminMenu
         else allMenuItems)"

definition header_menuItems :: "jsval \<Rightarrow> bool \<Rightarrow> menu_item list" where
  "header_menuItems u loading =
     (if \<not> truthy u \<and> \<not> loading then []
      else unique_loop (header_allMenuItems u) {} [])"

subsection \<open>Sidebar.js: getMenuItems\<close>

definition sidebar_baseMenu :: "menu_item list" where
  "sidebar_baseMenu =
     [\<lparr>path = ''/dashboard'', label = ''Dashboard'', icon = Some ''fas fa-home'',
       roles = [''staff'', ''approver-level-1'', ''approver-level-2'', ''finance'', ''admin'']\<rparr>]"

definition sidebar_staffMenu :: "menu_item list" where
  "sidebar_staffMenu =
     [\<lparr>path = ''/requests/my-requests'', label = ''My Requests'', icon = Some ''fas fa-list'',
       roles = [''staff'']\<rparr>,
      \<lparr>path = ''/requests/create'', label = ''Create Request'',
       icon = Some ''fas fa-plus-circle'', roles = [''staff'']\<rparr>]"

definition sidebar_approverMenu :: "menu_item list" where
  "sidebar_approverMenu =
     [\<lparr>path = ''/approvals/pending'', label = ''Pending Approvals'',
       icon = Some ''fas fa-clock'', roles = [''approver-level-1'', ''approver-level-2'']\<rparr>,
      \<lparr>path = ''/requests/all'', label = ''All Requests'',
       icon = Some ''fas fa-list-alt'', roles = [''approver-level-1'', ''approver-level-2'']\<rparr>]"

definition sidebar_financeMenu :: "menu_item list" where
  "sidebar_financeMenu =
     [\<lparr>path = ''/requests/approved'', label = ''Approved Requests'',
       icon = Some ''fas fa-check-circle'', roles = [''finance'']\<rparr>,
      \<lparr>path = ''/requests/all'', label = ''All Requests'',
       icon = Some ''fas fa-list-alt'', roles = [''finance'']\<rparr>]"

definition sidebar_adminMenu :: "menu_item list" where
  "sidebar_adminMenu =
     [\<lparr>path = ''/requests/all'', label = ''All Requests'',
       icon = Some ''fas fa-list-alt'', roles = [''admin'']\<rparr>,
      \<lparr>path = ''/admin/users'', label = ''Users Management'',
       icon = Some ''fas fa-users'', roles = [''admin'']\<rparr>,
      \<lparr>path = ''/admin/request-types'', label = ''Request Types'',
       icon = Some ''fas fa-tags'', roles = [''admin'']\<rparr>,
      \<lparr>path = ''/admin/approval-levels'', label = ''Approval Levels'',
       icon = Some ''fas fa-layer-group'', roles = [''admin'']\<rparr>]"

definition sidebar_commonMenu :: "menu_item list" where
  "sidebar_commonMenu =
     [\<lparr>path = ''/profile'', label = ''Profile'', icon = Some ''fas fa-user'',
       roles = [''staff'', ''approver-level-1'', ''approver-level-2'', ''finance'', ''admin'']\<rparr>]"

definition getMenuItems :: "jsval \<Rightarrow> menu_item list" where
  "getMenuItems u =
     (let role = js_or (js_prop u ''role'') (Str ''staff'');
          isSuperuser = js_or (js_prop u ''is_superuser'') (Bool False);
          allMenuItems = sidebar_baseMenu
      in if truthy isSuperuser then
           allMenuItems @ sidebar_staffMenu @ sidebar_approverMenu @ sidebar_financeMenu
             @ sidebar_adminMenu @ sidebar_commonMenu
         else if role = Str ''staff'' then allMenuItems @ sidebar_staffMenu @ sidebar_commonMenu
         else if role = Str ''approver-level-1'' \<or> role = Str ''approver-level-2''
           then allMenuItems @ sidebar_approverMenu @ sidebar_commonMenu
         else if role = Str ''finance'' then allMenuItems @ sidebar_financeMenu @ sidebar_commonMenu
         else if role = Str ''admin'' then allMenuItems @ sidebar_adminMenu @ sidebar_commonMenu
         else allMenuItems)"

section \<open>AuthContext.js\<close>

text \<open>
  Setting a property of an object literal: an existing key keeps its position, a new key
  is appended, as in \<^verbatim>\<open>{...userData, is_superuser: v}\<close>.
\<close>

fun obj_set :: "string \<Rightarrow> jsval \<Rightarrow> (string \<times> jsval) list \<Rightarrow> (string \<times> jsval) list" where
  "obj_set k v [] = [(k, v)]"
| "obj_set k v ((k', v') # kvs) =
     (if k' = k then (k, v) # kvs else (k', v') # obj_set k v kvs)"

text \<open>
  The properties that \<^verbatim>\<open>{...userData}\<close> copies.  The spread is only reached when
  \<^verbatim>\<open>userData.role !== undefined\<close>, that is, on an object.
\<close>

fun own_props :: "jsval \<Rightarrow> (string \<times> jsval) list" where
  "own_props (Obj kvs) = kvs"
| "own_props _ = []"

text \<open>
  \<open>normalizeUserData\<close>; the result is \<open>None\<close> when \<^verbatim>\<open>userData.role\<close> throws, which it
  does on \<^verbatim>\<open>null\<close> and \<^verbatim>\<open>undefined\<close>.
\<close>

definition normalizeUserData :: "jsval \<Rightarrow> jsval option" where
  "normalizeUserData userData =
     (if nullish userData then None
      else if js_prop userData ''role'' \<noteq> Undefined then
        Some (Obj (obj_set ''is_superuser''
                (js_or (js_or (Bool (js_prop userData ''role'' = Str ''admin''))
                              (js_prop userData ''is_superuser''))
                       (Bool False))
                (own_props userData)))
      else
        let isSuperuser = js_or (js_prop userData ''is_superuser'') (Bool False) in
        if truthy isSuperuser then
          Some (Obj [(''id'', js_prop userData ''id''),
                     (''username'', js_prop userData ''username''),
                     (''email'', js_prop userData ''email''),
                     (''role'', Str ''admin''),
                     (''role_display'', Str ''Administrator''),
                     (''is_superuser'', Bool True)])
        else if truthy (js_prop userData ''profile'') then
          Some (Obj [(''id'', js_prop userData ''id''),
                     (''username'', js_prop userData ''username''),
                     (''email'', js_prop userData ''email''),
                     (''role'', js_or (js_prop (js_prop userData ''profile'') ''role'') Null),
                     (''role_display'',
                        js_or (js_prop (js_prop userData ''profile'') ''role_display'') Null),
                     (''is_superuser'', Bool False)])
        else
          Some (Obj [(''id'', js_prop userData ''id''),
                     (''username'', js_prop userData ''username''),
                     (''email'', js_prop userData ''email''),
                     (''role'', Null),
                     (''role_display'', Null),
                     (''is_superuser'', Bool False)]))"

text \<open>The state of the provider: \<^verbatim>\<open>user\<close>, \<^verbatim>\<open>loading\<close>, \<^verbatim>\<open>isAuthenticated\<close>.\<close>

record auth_state =
  user :: jsval
  loading :: bool
  isAuthenticated :: bool

section \<open>ProtectedRoute\<close>

text \<open>
  What the guard returns: the spinner, a \<^verbatim>\<open><Navigate to=... replace />\<close> (the flag is
  \<^verbatim>\<open>replace\<close>), or its children.  \<open>allowedRoles\<close> is \<open>None\<close> for the default
  \<^verbatim>\<open>null\<close>, otherwise the array of role names; an array is truthy even when empty.
\<close>

datatype 'c element = Loading_indicator | Navigate string bool | Children 'c

definition array_includes :: "string list \<Rightarrow> jsval \<Rightarrow> bool" where
  "array_includes xs v = (\<exists>s \<in> set xs. v = Str s)"

definition ProtectedRoute :: "'c \<Rightarrow> string list option \<Rightarrow> auth_state \<Rightarrow> 'c element" where
  "ProtectedRoute children allowedRoles ctx =
     (if loading ctx then Loading_indicator
      else if \<not> isAuthenticated ctx then Navigate ''/login'' True
      else case allowedRoles of
             None \<Rightarrow> Children children
           | Some rs \<Rightarrow>
               if truthy (user ctx) then
                 (let userRole = js_prop (user ctx) ''role''
                  in if \<not> array_includes rs userRole then Navigate ''/dashboard'' True
                     else Children children)
               else Children children)"

section \<open>The HTTP client (api.js)\<close>

subsection \<open>String conversion\<close>

text \<open>
  \<^verbatim>\<open>localStorage.setItem\<close> and a template literal convert their argument to a string.
  The conversion of a number is the language's own \<^verbatim>\<open>Number::toString\<close>, which rounds to
  the shortest digits that identify the double and switches to exponent form; it is the
  parameter \<open>nf\<close>.  An object converts through its \<^verbatim>\<open>toString\<close>: the inherited one gives
  \<^verbatim>\<open>[object Object]\<close>, and an own property of that name, which in parsed JSON is never a
  function, makes the conversion throw a TypeError (\<open>None\<close>).  An array joins the
  conversions of its elements with commas, \<^verbatim>\<open>null\<close> and \<^verbatim>\<open>undefined\<close> giving the empty
  string, and throws when an element does.
\<close>

fun join_comma :: "string list \<Rightarrow> string" where
  "join_comma [] = []"
| "join_comma [s] = s"
| "join_comma (s # t # ss) = s @ '','' @ join_comma (t # ss)"

fun to_string :: "(int \<Rightarrow> string) \<Rightarrow> jsval \<Rightarrow> string option" where
  "to_string nf Undefined = Some ''undefined''"
| "to_string nf Null = Some ''null''"
| "to_string nf (Bool b) = Some (if b then ''true'' else ''false'')"
| "to_string nf (Num n) = Some (nf n)"
| "to_string nf (Str s) = Some s"
| "to_string nf (Arr vs) =
     map_option join_comma
       (those (map (\<lambda>v. if nullish v then Some [] else to_string nf v) vs))"
| "to_string nf (Obj kvs) =
     (if map_of kvs ''toString'' \<noteq> None then None else Some ''[object Object]'')"

subsection \<open>Requests, responses, the browser and the network\<close>

text \<open>
  An axios request configuration: what is sent, the \<^verbatim>\<open>Authorization\<close> header and the
  \<^verbatim>\<open>_retry\<close> flag that the response interceptor sets.
\<close>

record request =
  http_method :: string
  url :: string
  body :: jsval
  authorization :: "string option"
  retry :: bool

record response =
  status :: nat
  data :: jsval

text \<open>
  The network answers a call with a response, or not at all.  A call is a request of the
  \<^verbatim>\<open>api\<close> instance or the bare \<^verbatim>\<open>axios.post\<close> to \<^verbatim>\<open>/api/token/refresh/\<close>, which carries
  the refresh token.  The answer may depend on every call made before.
\<close>

datatype reply = Reply response | No_response

datatype net_call = Api_call request | Refresh_call string

type_synonym server = "net_call list \<Rightarrow> net_call \<Rightarrow> reply"

text \<open>
  The errors a caller can see: the error of a request of the \<^verbatim>\<open>api\<close> instance, with
  \<^verbatim>\<open>error.config\<close> and \<^verbatim>\<open>error.response\<close> (absent when nothing came back); the error of
  the refresh call; the TypeError of destructuring a missing response body or of
  converting an access value that has no string conversion.
\<close>

datatype js_error =
    Axios_error request "response option"
  | Refresh_error "response option"
  | Type_error

datatype outcome = Resolved response | Rejected js_error

text \<open>
  The browser: \<^verbatim>\<open>localStorage\<close>, the assignments made to \<^verbatim>\<open>window.location.href\<close>, and
  the calls that went out to the network.
\<close>

record browser =
  localStorage :: "string \<rightharpoonup> string"
  navigations :: "string list"
  net_log :: "net_call list"

definition getItem :: "browser \<Rightarrow> string \<Rightarrow> string option" where
  "getItem w k = localStorage w k"

definition setItem :: "string \<Rightarrow> string \<Rightarrow> browser \<Rightarrow> browser" where
  "setItem k v w = w\<lparr>localStorage := (localStorage w)(k \<mapsto> v)\<rparr>"

definition removeItem :: "string \<Rightarrow> browser \<Rightarrow> browser" where
  "removeItem k w = w\<lparr>localStorage := (localStorage w)(k := None)\<rparr>"

definition set_href :: "string \<Rightarrow> browser \<Rightarrow> browser" where
  "set_href target w = w\<lparr>navigations := navigations w @ [target]\<rparr>"

text \<open>\<^verbatim>\<open>getItem\<close> gives \<^verbatim>\<open>null\<close> or a string; the empty string is falsy too.\<close>

definition item_truthy :: "string option \<Rightarrow> bool" where
  "item_truthy v = (case v of None \<Rightarrow> False | Some s \<Rightarrow> s \<noteq> [])"

definition send :: "server \<Rightarrow> net_call \<Rightarrow> browser \<Rightarrow> reply \<times> browser" where
  "send srv c w = (srv (net_log w) c, w\<lparr>net_log := net_log w @ [c]\<rparr>)"

text \<open>The default of axios: a promise resolves on a status from 200 to 299.\<close>

definition validateStatus :: "nat \<Rightarrow> bool" where
  "validateStatus st = (200 \<le> st \<and> st < 300)"

subsection \<open>The interceptors\<close>

definition request_interceptor :: "browser \<Rightarrow> request \<Rightarrow> request" where
  "request_interceptor w config =
     (let token = getItem w ''access_token''
      in if item_truthy token then config\<lparr>authorization := Some (''Bearer '' @ the token)\<rparr>
         else config)"

text \<open>
  \<open>api\<close> is a request through the instance: request interceptor, network, response
  interceptor.  \<open>response_error_handler\<close> is the second argument of
  \<^verbatim>\<open>api.interceptors.response.use\<close>; its \<^verbatim>\<open>return api(originalRequest)\<close> hands the outcome
  of the retried request to the caller, and \<^verbatim>\<open>originalRequest\<close> is \<^verbatim>\<open>error.config\<close>
  itself, so the error rejected after \<^verbatim>\<open>_retry = true\<close> carries the flag.
\<close>

function (sequential)
  api :: "(int \<Rightarrow> string) \<Rightarrow> server \<Rightarrow> request \<Rightarrow> browser \<Rightarrow> outcome \<times> browser"
  and response_error_handler ::
    "(int \<Rightarrow> string) \<Rightarrow> server \<Rightarrow> js_error \<Rightarrow> browser \<Rightarrow> outcome \<times> browser"
where
  "api nf srv req w =
     (let config = request_interceptor w req
      in case send srv (Api_call config) w of
           (Reply r, w1) \<Rightarrow>
             if validateStatus (status r) then (Resolved r, w1)
             else response_error_handler nf srv (Axios_error config (Some r)) w1
         | (No_response, w1) \<Rightarrow>
             response_error_handler nf srv (Axios_error config None) w1)"
| "response_error_handler nf srv (Axios_error originalRequest resp) w =
     (if map_option status resp = Some 401 \<and> \<not> retry originalRequest then
        let originalRequest = originalRequest\<lparr>retry := True\<rparr>;
            refreshToken = getItem w ''refresh_token''
        in if \<not> item_truthy refreshToken then
             (Rejected (Axios_error originalRequest resp),
              set_href ''/login'' (removeItem ''user'' (removeItem ''refresh_token''
                (removeItem ''access_token'' w))))
           else
             (case send srv (Refresh_call (the refreshToken)) w of
                (Reply r, w1) \<Rightarrow>
                  if validateStatus (status r) then
                    (if nullish (data r) then
                       (Rejected Type_error,
                        set_href ''/login'' (removeItem ''user'' (removeItem ''refresh_token''
                          (removeItem ''access_token'' w1))))
                     else
                       let access = js_prop (data r) ''access''
                       in case to_string nf access of
                            None \<Rightarrow>
                              (Rejected Type_error,
                               set_href ''/login'' (removeItem ''user''
                                 (removeItem ''refresh_token''
                                   (removeItem ''access_token'' w1))))
                          | Some token \<Rightarrow>
                              let w2 = setItem ''access_token'' token w1;
                                  originalRequest = originalRequest
                                    \<lparr>authorization := Some (''Bearer '' @ token)\<rparr>
                              in api nf srv originalRequest w2)
                  else
                    (Rejected (Refresh_error (Some r)),
                     set_href ''/login'' (removeItem ''user'' (removeItem ''refresh_token''
                       (removeItem ''access_token'' w1))))
              | (No_response, w1) \<Rightarrow>
                  (Rejected (Refresh_error None),
                   set_href ''/login'' (removeItem ''user'' (removeItem ''refresh_token''
                     (removeItem ''access_token'' w1)))))
      else (Rejected (Axios_error originalRequest resp), w))"
| "response_error_handler nf srv e w = (Rejected e, w)"
  by pat_completeness auto
termination
  by (relation "measure (\<lambda>x. case x of
            Inl (nf, srv, req, w) \<Rightarrow> (if retry req then 1 else 3)
          | Inr (nf, srv, e, w) \<Rightarrow>
              (case e of Axios_error c _ \<Rightarrow> if retry c then 0 else 2 | _ \<Rightarrow> 0))")
     (auto simp: request_interceptor_def Let_def)

declare api.simps [simp del]
declare response_error_handler.simps [simp del]

section \<open>Session restore (AuthContext.js, initAuth)\<close>

text \<open>\<^verbatim>\<open>authService.getCurrentUser\<close>: \<^verbatim>\<open>api.get('/api/auth/me/')\<close>, then \<^verbatim>\<open>response.data\<close>.\<close>

definition getCurrentUser ::
  "(int \<Rightarrow> string) \<Rightarrow> server \<Rightarrow> browser \<Rightarrow> (js_error + jsval) \<times> browser" where
  "getCurrentUser nf srv w =
     (case api nf srv \<lparr>http_method = ''get'', url = ''/api/auth/me/'', body = Undefined,
                     authorization = None, retry = False\<rparr> w of
        (Resolved r, w1) \<Rightarrow> (Inr (data r), w1)
      | (Rejected e, w1) \<Rightarrow> (Inl e, w1))"

text \<open>
  \<open>initAuth\<close>, with \<^verbatim>\<open>JSON.stringify\<close> as the parameter \<open>stringify\<close> and the number
  conversion \<open>nf\<close> that the client needs.  The \<^verbatim>\<open>catch\<close>
  block is reached when the request is rejected and when \<open>normalizeUserData\<close> throws.
\<close>

definition initAuth ::
  "(int \<Rightarrow> string) \<Rightarrow> (jsval \<Rightarrow> string) \<Rightarrow> server \<Rightarrow> auth_state \<times> browser
     \<Rightarrow> auth_state \<times> browser" where
  "initAuth nf stringify srv sw =
     (let s = fst sw; w = snd sw;
          storedUser = getItem w ''user'';
          accessToken = getItem w ''access_token''
      in if item_truthy storedUser \<and> item_truthy accessToken then
           (case getCurrentUser nf srv w of
              (Inr userData, w1) \<Rightarrow>
                (case normalizeUserData userData of
                   Some normalizedUser \<Rightarrow>
                     (s\<lparr>user := normalizedUser, isAuthenticated := True, loading := False\<rparr>,
                      setItem ''user'' (stringify normalizedUser) w1)
                 | None \<Rightarrow>
                     (s\<lparr>user := Null, isAuthenticated := False, loading := False\<rparr>,
                      removeItem ''user'' (removeItem ''refresh_token''
                        (removeItem ''access_token'' w1))))
            | (Inl e, w1) \<Rightarrow>
                (s\<lparr>user := Null, isAuthenticated := False, loading := False\<rparr>,
                 removeItem ''user'' (removeItem ''refresh_token''
                   (removeItem ''access_token'' w1))))
         else (s\<lparr>user := Null, isAuthenticated := False, loading := False\<rparr>, w))"

section \<open>Reference identities\<close>

text \<open>An identity with role \<^verbatim>\<open>staff\<close> that is no superuser.\<close>

definition staff_identity :: jsval where
  "staff_identity = Obj [(''role'', Str ''staff''), (''is_superuser'', Bool False)]"

section \<open>Notions used in the statements\<close>

text \<open>
  Appending a call to the network log; removing the three session keys; the response a
  reply carries, if any; whether a reply makes the promise resolve.
\<close>

definition log_call :: "net_call \<Rightarrow> browser \<Rightarrow> browser" where
  "log_call c w = w\<lparr>net_log := net_log w @ [c]\<rparr>"

definition clear_session :: "browser \<Rightarrow> browser" where
  "clear_session w = w\<lparr>localStorage := (localStorage w)
      (''access_token'' := None, ''refresh_token'' := None, ''user'' := None)\<rparr>"

definition reply_response :: "reply \<Rightarrow> response option" where
  "reply_response rp = (case rp of Reply r \<Rightarrow> Some r | No_response \<Rightarrow> None)"

definition reply_ok :: "reply \<Rightarrow> bool" where
  "reply_ok rp = (case rp of Reply r \<Rightarrow> validateStatus (status r) | No_response \<Rightarrow> False)"

section \<open>Scenarios\<close>

text \<open>
  A request of some page, a browser holding a session, a backend that rejects every bearer
  token but \<^verbatim>\<open>new\<close> and whose refresh endpoint issues \<^verbatim>\<open>new\<close>, and a backend that
  gives the same reply to every call.  The number conversion of the scenarios writes the
  decimal digits of an integer.
\<close>

definition digit_char :: "nat \<Rightarrow> char" where
  "digit_char n = (if n < 10 then ''0123456789'' ! n else CHR ''?'')"

fun decimal :: "nat \<Rightarrow> string" where
  "decimal n =
     (if n < 10 then [digit_char n] else decimal (n div 10) @ [digit_char (n mod 10)])"

definition int_to_string :: "int \<Rightarrow> string" where
  "int_to_string i = (if i < 0 then CHR ''-'' # decimal (nat (- i)) else decimal (nat i))"

definition demo_request :: request where
  "demo_request = \<lparr>http_method = ''get'', url = ''/api/requests/'', body = Undefined,
                    authorization = None, retry = False\<rparr>"

definition demo_browser :: browser where
  "demo_browser = \<lparr>localStorage = [''access_token'' \<mapsto> ''old'', ''refresh_token'' \<mapsto> ''r1'',
                                     ''user'' \<mapsto> ''{}''],
                    navigations = [], net_log = []\<rparr>"

definition server_refresh_ok :: server where
  "server_refresh_ok lg c =
     (case c of
        Refresh_call t \<Rightarrow> Reply \<lparr>status = 200, data = Obj [(''access'', Str ''new'')]\<rparr>
      | Api_call rq \<Rightarrow>
          if authorization rq = Some ''Bearer new''
          then Reply \<lparr>status = 200, data = Arr []\<rparr>
          else Reply \<lparr>status = 401, data = Null\<rparr>)"

definition constant_server :: "reply \<Rightarrow> server" where
  "constant_server rp lg c = rp"

section \<open>Properties of the navigation menus\<close>

lemmas header_menus = header_baseMenu_def header_staffMenu_def header_approverMenu_def
  header_financeMenu_def header_adminMenu_def
lemmas sidebar_menus = sidebar_baseMenu_def sidebar_staffMenu_def sidebar_approverMenu_def
  sidebar_financeMenu_def sidebar_adminMenu_def sidebar_commonMenu_def

lemma unique_loop_acc: "unique_loop xs seen acc = acc @ unique_loop xs seen []"
proof (induction xs arbitrary: seen acc)
  case Nil
  then show ?case by simp
next
  case (Cons x xs)
  have a: "unique_loop xs (insert (path x) seen) (acc @ [x])
             = (acc @ [x]) @ unique_loop xs (insert (path x) seen) []"
    by (rule Cons.IH)
  have b: "unique_loop xs (insert (path x) seen) [x]
             = [x] @ unique_loop xs (insert (path x) seen) []"
    using Cons.IH [of "insert (path x) seen" "[x]"] by simp
  have c: "unique_loop xs seen acc = acc @ unique_loop xs seen []"
    by (rule Cons.IH)
  show ?case using a b c by simp
qed

lemma unique_loop_paths_fresh:
  "path ` set (unique_loop xs seen []) = path ` set xs - seen"
proof (induction xs arbitrary: seen)
  case Nil
  then show ?case by simp
next
  case (Cons x xs)
  show ?case
  proof (cases "path x \<in> seen")
    case True
    then show ?thesis using Cons.IH [of seen] by auto
  next
    case False
    have "unique_loop (x # xs) seen [] = x # unique_loop xs (insert (path x) seen) []"
      using False unique_loop_acc [of xs "insert (path x) seen" "[x]"] by simp
    then show ?thesis using False Cons.IH [of "insert (path x) seen"] by auto
  qed
qed

lemma unique_loop_distinct: "distinct (map path (unique_loop xs seen []))"
proof (induction xs arbitrary: seen)
  case Nil
  then show ?case by simp
next
  case (Cons x xs)
  show ?case
  proof (cases "path x \<in> seen")
    case True
    then show ?thesis using Cons.IH [of seen] by simp
  next
    case False
    have e: "unique_loop (x # xs) seen [] = x # unique_loop xs (insert (path x) seen) []"
      using False unique_loop_acc [of xs "insert (path x) seen" "[x]"] by simp
    have "path x \<notin> path ` set (unique_loop xs (insert (path x) seen) [])"
      by (simp add: unique_loop_paths_fresh)
    then show ?thesis using e Cons.IH [of "insert (path x) seen"] by simp
  qed
qed

lemma unique_loop_subseq: "subseq (unique_loop xs seen []) xs"
proof (induction xs arbitrary: seen)
  case Nil
  then show ?case by simp
next
  case (Cons x xs)
  show ?case
  proof (cases "path x \<in> seen")
    case True
    then show ?thesis using Cons.IH [of seen] by (simp add: list_emb_Cons)
  next
    case False
    have e: "unique_loop (x # xs) seen [] = x # unique_loop xs (insert (path x) seen) []"
      using False unique_loop_acc [of xs "insert (path x) seen" "[x]"] by simp
    show ?thesis using e Cons.IH [of "insert (path x) seen"] by simp
  qed
qed

lemma unique_loop_first:
  "y \<in> set (unique_loop xs seen []) \<Longrightarrow> find (\<lambda>x. path x = path y) xs = Some y"
proof (induction xs arbitrary: seen)
  case Nil
  then show ?case by simp
next
  case (Cons x xs)
  show ?case
  proof (cases "path x \<in> seen")
    case True
    then have m: "y \<in> set (unique_loop xs seen [])" using Cons.prems by simp
    then have "path y \<in> path ` set xs - seen" using unique_loop_paths_fresh [of xs seen] by blast
    then have "path x \<noteq> path y" using True by auto
    then show ?thesis using Cons.IH [OF m] by simp
  next
    case False
    have e: "unique_loop (x # xs) seen [] = x # unique_loop xs (insert (path x) seen) []"
      using False unique_loop_acc [of xs "insert (path x) seen" "[x]"] by simp
    show ?thesis
    proof (cases "y = x")
      case True
      then show ?thesis by simp
    next
      case ne: False
      then have m: "y \<in> set (unique_loop xs (insert (path x) seen) [])"
        using Cons.prems e by simp
      then have "path y \<in> path ` set xs - insert (path x) seen"
        using unique_loop_paths_fresh [of xs "insert (path x) seen"] by blast
      then have "path x \<noteq> path y" by auto
      then show ?thesis using Cons.IH [OF m] by simp
    qed
  qed
qed

lemma header_superuser_all:
  "unique_loop (header_baseMenu @ header_staffMenu @ header_approverMenu
                   @ header_financeMenu @ header_adminMenu) {} []
   = header_baseMenu @ header_staffMenu @ header_approverMenu
       @ [hd header_financeMenu] @ tl header_adminMenu"
  by (simp add: header_menus)

lemma header_admin: "unique_loop (header_baseMenu @ header_adminMenu) {} [] = header_baseMenu @ header_adminMenu"
  by (simp add: header_menus)

text \<open>
  The header's result never holds a path twice, is a subsequence of the assembled list,
  holds every assembled path, and keeps of each path the first entry that has it.
\<close>

lemma header_menuItems_distinct: "distinct (map path (header_menuItems u l))"
  by (simp add: header_menuItems_def unique_loop_distinct)

lemma header_menuItems_first_occurrence:
  "truthy u \<or> l \<Longrightarrow>
     subseq (header_menuItems u l) (header_allMenuItems u)
   \<and> path ` set (header_menuItems u l) = path ` set (header_allMenuItems u)
   \<and> (\<forall>y \<in> set (header_menuItems u l).
         find (\<lambda>x. path x = path y) (header_allMenuItems u) = Some y)"
  by (auto simp: header_menuItems_def unique_loop_subseq unique_loop_paths_fresh
        unique_loop_first)

lemma header_role_admin_iff:
  "js_or (js_prop u ''role'') (Str ''staff'') = Str ''admin'' \<longleftrightarrow> js_prop u ''role'' = Str ''admin''"
  by (auto simp: js_or_def)

lemma superuser_truthy: "truthy (js_prop u ''is_superuser'') \<Longrightarrow> truthy u"
  by (cases u) auto

text \<open>
  What a superuser gets.  When the role is not \<^verbatim>\<open>admin\<close>, the header resolves to base,
  staff, approver, finance and admin entries with duplicates by path removed, and the
  sidebar's paths are those of its base, staff, approver, finance and admin entries
  together with the common Profile entry.  When the role is \<^verbatim>\<open>admin\<close>, the header
  resolves to the base entry followed by the admin entries only, and no path occurs
  twice.  The sidebar does not look at the role of a superuser at all.
\<close>

lemma superuser_menus:
  assumes su: "truthy (js_prop u ''is_superuser'')"
  shows "(js_prop u ''role'' \<noteq> Str ''admin'' \<longrightarrow>
            header_menuItems u l =
              unique_loop (header_baseMenu @ header_staffMenu @ header_approverMenu
                             @ header_financeMenu @ header_adminMenu) {} []
          \<and> map path (header_menuItems u l) =
              [''/dashboard'', ''/requests/my-requests'', ''/requests/create'',
               ''/approvals/pending'', ''/requests/all'', ''/requests/approved'',
               ''/admin/users'', ''/admin/request-types'', ''/admin/approval-levels'']
          \<and> path ` set (header_menuItems u l) =
              path ` set (header_baseMenu @ header_staffMenu @ header_approverMenu
                          @ header_financeMenu @ header_adminMenu)
          \<and> path ` set (getMenuItems u) =
              path ` set (sidebar_baseMenu @ sidebar_staffMenu @ sidebar_approverMenu
                          @ sidebar_financeMenu @ sidebar_adminMenu)
                \<union> path ` set sidebar_commonMenu)
       \<and> (js_prop u ''role'' = Str ''admin'' \<longrightarrow>
            header_menuItems u l = header_baseMenu @ header_adminMenu
          \<and> distinct (map path (header_menuItems u l)))"
proof -
  have tu: "truthy u" using su by (rule superuser_truthy)
  have s: "truthy (js_or (js_prop u ''is_superuser'') (Bool False))"
    using su by (simp add: js_or_def)
  have a: "js_prop u ''role'' \<noteq> Str ''admin'' \<Longrightarrow>
           header_menuItems u l =
              unique_loop (header_baseMenu @ header_staffMenu @ header_approverMenu
                             @ header_financeMenu @ header_adminMenu) {} []"
    using tu s by (simp add: header_menuItems_def header_allMenuItems_def Let_def header_role_admin_iff)
  have b: "js_prop u ''role'' = Str ''admin'' \<Longrightarrow>
           header_menuItems u l = header_baseMenu @ header_adminMenu"
    using tu s by (simp add: header_menuItems_def header_allMenuItems_def Let_def js_or_def header_admin)
  have c: "path ` set (getMenuItems u) =
              path ` set (sidebar_baseMenu @ sidebar_staffMenu @ sidebar_approverMenu
                          @ sidebar_financeMenu @ sidebar_adminMenu)
                \<union> path ` set sidebar_commonMenu"
    using s by (simp add: getMenuItems_def Let_def image_Un Un_assoc)
  have d: "map path (header_baseMenu @ header_staffMenu @ header_approverMenu
       @ [hd header_financeMenu] @ tl header_adminMenu) = [''/dashboard'', ''/requests/my-requests'', ''/requests/create'',
               ''/approvals/pending'', ''/requests/all'', ''/requests/approved'',
               ''/admin/users'', ''/admin/request-types'', ''/admin/approval-levels'']"
    by (simp add: header_menus)
  have e: "path ` set (unique_loop (header_baseMenu @ header_staffMenu @ header_approverMenu
                             @ header_financeMenu @ header_adminMenu) {} []) = path ` set (header_baseMenu @ header_staffMenu @ header_approverMenu
                          @ header_financeMenu @ header_adminMenu)"
    by (simp add: unique_loop_paths_fresh)
  have f: "distinct (map path (header_baseMenu @ header_adminMenu))"
    by (simp add: header_menus)
  show ?thesis using a b c d e f by (simp add: header_superuser_all)
qed

lemma sidebar_superuser_any_role:
  "truthy (js_prop u ''is_superuser'') \<Longrightarrow>
   getMenuItems u = sidebar_baseMenu @ sidebar_staffMenu @ sidebar_approverMenu
                      @ sidebar_financeMenu @ sidebar_adminMenu @ sidebar_commonMenu"
  by (simp add: getMenuItems_def Let_def js_or_def)

text \<open>
  C3.  The claim holds of the header for every superuser, and of the sidebar (with its
  Profile entry) for a superuser whose role is not \<^verbatim>\<open>admin\<close>.  It fails on the sidebar for
  a superuser whose role is \<^verbatim>\<open>admin\<close>: the header gives base and admin entries only, but
  the sidebar gives the staff, approver and finance entries as well, so its result is
  not base, admin and Profile entries, and \<^verbatim>\<open>/requests/all\<close> is there three times.
\<close>

theorem sidebar_admin_superuser:
  "map path (getMenuItems (Obj [(''role'', Str ''admin''), (''is_superuser'', Bool True)]))
     = [''/dashboard'', ''/requests/my-requests'', ''/requests/create'',
        ''/approvals/pending'', ''/requests/all'', ''/requests/approved'',
        ''/requests/all'', ''/requests/all'', ''/admin/users'',
        ''/admin/request-types'', ''/admin/approval-levels'', ''/profile'']
   \<and> getMenuItems (Obj [(''role'', Str ''admin''), (''is_superuser'', Bool True)])
     \<noteq> sidebar_baseMenu @ sidebar_adminMenu @ sidebar_commonMenu
   \<and> map path (header_menuItems (Obj [(''role'', Str ''admin''), (''is_superuser'', Bool True)])
         False)
     = [''/dashboard'', ''/requests/all'', ''/admin/users'', ''/admin/request-types'',
        ''/admin/approval-levels'']"
proof -
  have a: "map path (getMenuItems (Obj [(''role'', Str ''admin''), (''is_superuser'', Bool True)]))
     = [''/dashboard'', ''/requests/my-requests'', ''/requests/create'',
        ''/approvals/pending'', ''/requests/all'', ''/requests/approved'',
        ''/requests/all'', ''/requests/all'', ''/admin/users'',
        ''/admin/request-types'', ''/admin/approval-levels'', ''/profile'']"
    by (simp add: getMenuItems_def Let_def js_or_def sidebar_menus)
  have b: "getMenuItems (Obj [(''role'', Str ''admin''), (''is_superuser'', Bool True)])
     \<noteq> sidebar_baseMenu @ sidebar_adminMenu @ sidebar_commonMenu"
    by (simp add: getMenuItems_def Let_def js_or_def sidebar_menus)
  have c: "map path (header_menuItems (Obj [(''role'', Str ''admin''), (''is_superuser'', Bool True)])
         False)
     = [''/dashboard'', ''/requests/all'', ''/admin/users'', ''/admin/request-types'',
        ''/admin/approval-levels'']"
    by (simp add: header_menuItems_def header_allMenuItems_def header_admin Let_def js_or_def
          header_menus)
  show ?thesis using a b c by blast
qed

text \<open>
  C4.  The sidebar does not remove duplicates: for a superuser its result holds
  \<^verbatim>\<open>/requests/all\<close> three times.
\<close>

theorem sidebar_duplicate_paths:
  "map path (getMenuItems (Obj [(''role'', Str ''staff''), (''is_superuser'', Bool True)]))
     = [''/dashboard'', ''/requests/my-requests'', ''/requests/create'',
        ''/approvals/pending'', ''/requests/all'', ''/requests/approved'',
        ''/requests/all'', ''/requests/all'', ''/admin/users'',
        ''/admin/request-types'', ''/admin/approval-levels'', ''/profile'']
   \<and> \<not> distinct (map path
           (getMenuItems (Obj [(''role'', Str ''staff''), (''is_superuser'', Bool True)])))"
  by (simp add: getMenuItems_def Let_def js_or_def sidebar_menus)

text \<open>
  C7 (amended).  For an identity that is no superuser: when its role is missing or empty
  (falsy), both resolvers give the menu of role \<^verbatim>\<open>staff\<close>; when its role is a truthy value
  that is none of the role names the resolvers test, both give the base entry alone.
\<close>

theorem role_fallback:
  assumes nsu: "\<not> truthy (js_prop u ''is_superuser'')"
  shows "(truthy u \<and> \<not> truthy (js_prop u ''role'') \<longrightarrow>
            header_menuItems u l = header_menuItems staff_identity l
          \<and> getMenuItems u = getMenuItems staff_identity)
       \<and> (truthy (js_prop u ''role'')
          \<and> js_prop u ''role'' \<notin> Str ` {''staff'', ''approver_level_1'', ''approver_level_2'',
                ''approver-level-1'', ''approver-level-2'', ''finance'', ''admin''} \<longrightarrow>
            header_menuItems u l = header_baseMenu
          \<and> getMenuItems u = sidebar_baseMenu)"
proof -
  have s: "\<not> truthy (js_or (js_prop u ''is_superuser'') (Bool False))"
    using nsu by (simp add: js_or_def)
  have ts: "truthy staff_identity" by (simp add: staff_identity_def)
  have hs: "header_allMenuItems staff_identity = header_baseMenu @ header_staffMenu"
    by (simp add: header_allMenuItems_def staff_identity_def Let_def js_or_def)
  have gs: "getMenuItems staff_identity
              = sidebar_baseMenu @ sidebar_staffMenu @ sidebar_commonMenu"
    by (simp add: getMenuItems_def staff_identity_def Let_def js_or_def)
  have a: "truthy u \<Longrightarrow> \<not> truthy (js_prop u ''role'') \<Longrightarrow>
           header_menuItems u l = header_menuItems staff_identity l"
    using s ts hs
    by (simp add: header_menuItems_def header_allMenuItems_def Let_def js_or_def)
  have b: "\<not> truthy (js_prop u ''role'') \<Longrightarrow> getMenuItems u = getMenuItems staff_identity"
    using s gs by (simp add: getMenuItems_def Let_def js_or_def)
  have tu: "truthy (js_prop u ''role'') \<Longrightarrow> truthy u"
    by (cases u) auto
  have ub: "unique_loop header_baseMenu {} [] = header_baseMenu"
    by (simp add: header_baseMenu_def)
  have c: "truthy (js_prop u ''role'') \<Longrightarrow>
           js_prop u ''role'' \<notin> Str ` {''staff'', ''approver_level_1'', ''approver_level_2'',
                ''approver-level-1'', ''approver-level-2'', ''finance'', ''admin''} \<Longrightarrow>
           header_menuItems u l = header_baseMenu"
    using s tu ub
    by (simp add: header_menuItems_def header_allMenuItems_def Let_def js_or_def)
  have d: "truthy (js_prop u ''role'') \<Longrightarrow>
           js_prop u ''role'' \<notin> Str ` {''staff'', ''approver_level_1'', ''approver_level_2'',
                ''approver-level-1'', ''approver-level-2'', ''finance'', ''admin''} \<Longrightarrow>
           getMenuItems u = sidebar_baseMenu"
    using s by (simp add: getMenuItems_def Let_def js_or_def)
  show ?thesis using a b c d by blast
qed

theorem role_fallback_witness:
  "header_menuItems (Obj [(''id'', Num 7), (''role'', Null)]) False
     = header_menuItems staff_identity False
   \<and> getMenuItems (Obj [(''id'', Num 7), (''role'', Null)]) = getMenuItems staff_identity
   \<and> header_menuItems (Obj [(''role'', Str ''manager''), (''is_superuser'', Bool False)]) False
     = header_baseMenu
   \<and> getMenuItems (Obj [(''role'', Str ''manager''), (''is_superuser'', Bool False)])
     = sidebar_baseMenu"
proof -
  have h1: "\<not> truthy (js_prop (Obj [(''id'', Num 7), (''role'', Null)]) ''is_superuser'')"
    by simp
  have r1: "truthy (Obj [(''id'', Num 7), (''role'', Null)])
            \<and> \<not> truthy (js_prop (Obj [(''id'', Num 7), (''role'', Null)]) ''role'')"
    by simp
  have h2: "\<not> truthy (js_prop (Obj [(''role'', Str ''manager''), (''is_superuser'', Bool False)])
              ''is_superuser'')"
    by simp
  have r2: "truthy (js_prop (Obj [(''role'', Str ''manager''), (''is_superuser'', Bool False)])
              ''role'')
            \<and> js_prop (Obj [(''role'', Str ''manager''), (''is_superuser'', Bool False)]) ''role''
                \<notin> Str ` {''staff'', ''approver_level_1'', ''approver_level_2'',
                    ''approver-level-1'', ''approver-level-2'', ''finance'', ''admin''}"
    by simp
  show ?thesis
    using role_fallback [OF h1, of False] role_fallback [OF h2, of False] r1 r2
    by blast
qed

text \<open>
  C7 as stated fails: a role \<^verbatim>\<open>manager\<close>, which is none of the known values, does not
  resolve to the menu of role \<^verbatim>\<open>staff\<close>, in the header or in the sidebar.
\<close>

theorem unknown_role_counterexample:
  "header_menuItems (Obj [(''role'', Str ''manager''), (''is_superuser'', Bool False)]) False
     \<noteq> header_menuItems staff_identity False
   \<and> getMenuItems (Obj [(''role'', Str ''manager''), (''is_superuser'', Bool False)])
     \<noteq> getMenuItems staff_identity"
  by (simp add: header_menuItems_def header_allMenuItems_def getMenuItems_def
        staff_identity_def Let_def js_or_def header_menus sidebar_menus)

section \<open>Properties of normalizeUserData\<close>

lemma map_of_obj_set: "map_of (obj_set k v kvs) = (map_of kvs)(k \<mapsto> v)"
  by (induction kvs) (auto simp: fun_eq_iff)

lemma js_prop_obj_set:
  "js_prop (Obj (obj_set k v kvs)) k' = (if k' = k then v else js_prop (Obj kvs) k')"
  by (simp add: map_of_obj_set)

lemma role_defined_is_object: "js_prop p k \<noteq> Undefined \<Longrightarrow> \<exists>kvs. p = Obj kvs"
  by (cases p) auto

text \<open>
  C5 (amended).  \<open>normalizeUserData\<close> returns for every payload that is not \<^verbatim>\<open>null\<close> or
  \<^verbatim>\<open>undefined\<close>.  A payload without a top-level role whose \<^verbatim>\<open>is_superuser\<close> is truthy
  is normalized to role \<^verbatim>\<open>admin\<close>, role_display \<^verbatim>\<open>Administrator\<close> and
  \<^verbatim>\<open>is_superuser = true\<close>.  A payload with a top-level role keeps that role as it is.  A
  payload without a top-level role that is no superuser gets the role of its profile when
  the profile has a non-empty one, and the role \<^verbatim>\<open>null\<close> otherwise.
\<close>

theorem normalize_role:
  assumes nn: "\<not> nullish p"
  shows "\<exists>v. normalizeUserData p = Some v
     \<and> (js_prop p ''role'' = Undefined \<and> truthy (js_prop p ''is_superuser'') \<longrightarrow>
          js_prop v ''role'' = Str ''admin''
        \<and> js_prop v ''role_display'' = Str ''Administrator''
        \<and> js_prop v ''is_superuser'' = Bool True)
     \<and> (js_prop p ''role'' \<noteq> Undefined \<longrightarrow> js_prop v ''role'' = js_prop p ''role'')
     \<and> (js_prop p ''role'' = Undefined \<and> \<not> truthy (js_prop p ''is_superuser'')
        \<and> truthy (js_prop (js_prop p ''profile'') ''role'') \<longrightarrow>
          js_prop v ''role'' = js_prop (js_prop p ''profile'') ''role'')
     \<and> (js_prop p ''role'' = Undefined \<and> \<not> truthy (js_prop p ''is_superuser'')
        \<and> \<not> truthy (js_prop (js_prop p ''profile'') ''role'') \<longrightarrow>
          js_prop v ''role'' = Null)"
proof (cases "js_prop p ''role'' = Undefined")
  case False
  then obtain kvs where p: "p = Obj kvs" using role_defined_is_object by blast
  have "js_prop (Obj (obj_set ''is_superuser'' x kvs)) ''role'' = js_prop (Obj kvs) ''role''" for x
    by (simp only: js_prop_obj_set) simp
  then show ?thesis using False nn p
    by (simp add: normalizeUserData_def)
next
  case True
  have pf: "\<not> truthy (js_prop p ''profile'') \<Longrightarrow> \<not> truthy (js_prop (js_prop p ''profile'') ''role'')"
    by (cases "js_prop p ''profile''") auto
  show ?thesis using True nn pf
    by (auto simp: normalizeUserData_def Let_def js_or_def)
qed

theorem normalize_role_witness:
  "js_prop (the (normalizeUserData (Obj [(''id'', Num 1), (''is_superuser'', Bool True)]))) ''role''
     = Str ''admin''
   \<and> js_prop (the (normalizeUserData (Obj [(''id'', Num 2), (''role'', Str ''finance'')]))) ''role''
     = Str ''finance''
   \<and> js_prop (the (normalizeUserData
        (Obj [(''id'', Num 3), (''profile'', Obj [(''role'', Str ''staff'')])]))) ''role''
     = Str ''staff''
   \<and> js_prop (the (normalizeUserData (Obj [(''id'', Num 4), (''profile'', Obj [])]))) ''role''
     = Null"
proof -
  have n: "\<not> nullish (Obj kvs)" for kvs by (simp add: nullish_def)
  have a: "js_prop (the (normalizeUserData (Obj [(''id'', Num 1), (''is_superuser'', Bool True)])))
             ''role'' = Str ''admin''"
    using normalize_role [OF n, of "[(''id'', Num 1), (''is_superuser'', Bool True)]"]
    by auto
  have b: "js_prop (the (normalizeUserData (Obj [(''id'', Num 2), (''role'', Str ''finance'')])))
             ''role'' = Str ''finance''"
    using normalize_role [OF n, of "[(''id'', Num 2), (''role'', Str ''finance'')]"]
    by auto
  have c: "js_prop (the (normalizeUserData
             (Obj [(''id'', Num 3), (''profile'', Obj [(''role'', Str ''staff'')])]))) ''role''
           = Str ''staff''"
    using normalize_role [OF n, of "[(''id'', Num 3), (''profile'', Obj [(''role'', Str ''staff'')])]"]
    by auto
  have d: "js_prop (the (normalizeUserData (Obj [(''id'', Num 4), (''profile'', Obj [])]))) ''role''
           = Null"
    using normalize_role [OF n, of "[(''id'', Num 4), (''profile'', Obj [])]"]
    by auto
  show ?thesis using a b c d by blast
qed

text \<open>
  C5 as stated fails: a payload with no role, no profile and no superuser flag is
  normalized to an identity whose role is \<^verbatim>\<open>null\<close>.
\<close>

theorem normalize_role_counterexample:
  "normalizeUserData
     (Obj [(''id'', Num 7), (''username'', Str ''ann''), (''email'', Str ''ann@example.org'')])
   = Some (Obj [(''id'', Num 7), (''username'', Str ''ann''), (''email'', Str ''ann@example.org''),
                (''role'', Null), (''role_display'', Null), (''is_superuser'', Bool False)])"
  by (simp add: normalizeUserData_def nullish_def js_or_def)

text \<open>
  C9.  For a payload that carries a top-level role, \<open>normalizeUserData\<close> returns, sets
  \<^verbatim>\<open>is_superuser\<close> to \<^verbatim>\<open>true\<close> when that role is \<^verbatim>\<open>admin\<close>, whatever the payload's own
  flag, and so in its result role \<^verbatim>\<open>admin\<close> implies \<^verbatim>\<open>is_superuser = true\<close>.
\<close>

theorem admin_role_forces_superuser:
  assumes r: "js_prop p ''role'' \<noteq> Undefined"
  shows "\<exists>v. normalizeUserData p = Some v
     \<and> (js_prop p ''role'' = Str ''admin'' \<longrightarrow> js_prop v ''is_superuser'' = Bool True)
     \<and> (js_prop v ''role'' = Str ''admin'' \<longrightarrow> js_prop v ''is_superuser'' = Bool True)"
proof -
  obtain kvs where p: "p = Obj kvs" using r role_defined_is_object by blast
  have a: "js_prop (Obj (obj_set ''is_superuser'' x kvs)) ''role'' = js_prop (Obj kvs) ''role''" for x
    by (simp only: js_prop_obj_set) simp
  have b: "js_prop (Obj (obj_set ''is_superuser'' x kvs)) ''is_superuser'' = x" for x
    by (simp only: js_prop_obj_set) simp
  show ?thesis using r p a b
    by (simp add: normalizeUserData_def nullish_def js_or_def)
qed

theorem admin_role_forces_superuser_witness:
  "js_prop (the (normalizeUserData
      (Obj [(''id'', Num 5), (''role'', Str ''admin''), (''is_superuser'', Bool False)])))
      ''is_superuser'' = Bool True"
proof -
  have r: "js_prop (Obj [(''id'', Num 5), (''role'', Str ''admin''), (''is_superuser'', Bool False)])
             ''role'' \<noteq> Undefined"
    by simp
  show ?thesis
    using admin_role_forces_superuser [OF r] by auto
qed

section \<open>Properties of ProtectedRoute\<close>

text \<open>
  The rows of the guard's decision table that hold as the code is written: while loading
  it returns the waiting indicator; when not loading and not authenticated it navigates
  to \<^verbatim>\<open>/login\<close> with \<^verbatim>\<open>replace\<close>; when authenticated, with an identity present and an
  allowed-role array that does not hold the identity's role, it navigates to
  \<^verbatim>\<open>/dashboard\<close> with \<^verbatim>\<open>replace\<close>; when authenticated and no array is declared or the array
  holds the role, it returns its children.
\<close>

lemma ProtectedRoute_table:
  "(loading ctx \<longrightarrow> ProtectedRoute c ar ctx = Loading_indicator)
 \<and> (\<not> loading ctx \<and> \<not> isAuthenticated ctx \<longrightarrow> ProtectedRoute c ar ctx = Navigate ''/login'' True)
 \<and> (\<not> loading ctx \<and> isAuthenticated ctx \<and> truthy (user ctx) \<and> ar = Some rs
      \<and> js_prop (user ctx) ''role'' \<notin> Str ` set rs \<longrightarrow>
        ProtectedRoute c ar ctx = Navigate ''/dashboard'' True)
 \<and> (\<not> loading ctx \<and> isAuthenticated ctx
      \<and> (ar = None \<or> (ar = Some rs \<and> js_prop (user ctx) ''role'' \<in> Str ` set rs)) \<longrightarrow>
        ProtectedRoute c ar ctx = Children c)"
  by (auto simp: ProtectedRoute_def array_includes_def Let_def)

lemma ProtectedRoute_table_scenarios:
  "ProtectedRoute ''page'' (Some [''admin''])
      \<lparr>user = Null, loading = True, isAuthenticated = False\<rparr> = Loading_indicator
   \<and> ProtectedRoute ''page'' (Some [''admin''])
      \<lparr>user = Null, loading = False, isAuthenticated = False\<rparr> = Navigate ''/login'' True
   \<and> ProtectedRoute ''page'' (Some [''admin''])
      \<lparr>user = Obj [(''role'', Str ''approver_level_2''), (''is_superuser'', Bool False)],
       loading = False, isAuthenticated = True\<rparr> = Navigate ''/dashboard'' True
   \<and> ProtectedRoute ''page'' (Some [''admin''])
      \<lparr>user = Obj [(''role'', Str ''admin''), (''is_superuser'', Bool True)],
       loading = False, isAuthenticated = True\<rparr> = Children ''page''
   \<and> ProtectedRoute ''page'' None
      \<lparr>user = Obj [(''role'', Str ''staff''), (''is_superuser'', Bool False)],
       loading = False, isAuthenticated = True\<rparr> = Children ''page''"
  using ProtectedRoute_table [of "\<lparr>user = Null, loading = True, isAuthenticated = False\<rparr>"
            "''page''" "Some [''admin'']" "[''admin'']"]
    ProtectedRoute_table [of "\<lparr>user = Null, loading = False, isAuthenticated = False\<rparr>"
            "''page''" "Some [''admin'']" "[''admin'']"]
    ProtectedRoute_table [of "\<lparr>user = Obj [(''role'', Str ''approver_level_2''), (''is_superuser'', Bool False)],
       loading = False, isAuthenticated = True\<rparr>" "''page''" "Some [''admin'']" "[''admin'']"]
    ProtectedRoute_table [of "\<lparr>user = Obj [(''role'', Str ''admin''), (''is_superuser'', Bool True)],
       loading = False, isAuthenticated = True\<rparr>" "''page''" "Some [''admin'']" "[''admin'']"]
    ProtectedRoute_table [of "\<lparr>user = Obj [(''role'', Str ''staff''), (''is_superuser'', Bool False)],
       loading = False, isAuthenticated = True\<rparr>" "''page''" None "[]"]
  by simp

lemma ProtectedRoute_skips_roles_without_user:
  "\<not> truthy (user ctx) \<Longrightarrow> \<not> loading ctx \<Longrightarrow> isAuthenticated ctx \<Longrightarrow>
   ProtectedRoute c ar ctx = Children c"
  by (simp add: ProtectedRoute_def split: option.split)

text \<open>
  C6.  The guard is not a table over loading, authentication, role and allowed roles
  alone: authenticated, with allowed roles \<^verbatim>\<open>['admin']\<close> declared, a session whose user is
  \<^verbatim>\<open>undefined\<close> or \<^verbatim>\<open>null\<close> gets the guarded content, although no role of it is in the
  array, while a user object without a role is sent to \<^verbatim>\<open>/dashboard\<close>.
\<close>

theorem ProtectedRoute_without_user:
  "ProtectedRoute ''page'' (Some [''admin''])
      \<lparr>user = Undefined, loading = False, isAuthenticated = True\<rparr> = Children ''page''
   \<and> ProtectedRoute ''page'' (Some [''admin''])
      \<lparr>user = Null, loading = False, isAuthenticated = True\<rparr> = Children ''page''
   \<and> ProtectedRoute ''page'' (Some [''admin''])
      \<lparr>user = Obj [], loading = False, isAuthenticated = True\<rparr> = Navigate ''/dashboard'' True"
  by (simp add: ProtectedRoute_def array_includes_def)

section \<open>Properties of the HTTP client\<close>

lemma retry_request_interceptor [simp]: "retry (request_interceptor w req) = retry req"
  by (simp add: request_interceptor_def Let_def)

lemma api_resolved:
  "srv (net_log w) (Api_call (request_interceptor w req)) = Reply r \<Longrightarrow>
   validateStatus (status r) \<Longrightarrow>
   api nf srv req w = (Resolved r, log_call (Api_call (request_interceptor w req)) w)"
  by (simp add: api.simps send_def log_call_def Let_def)

lemma api_failed:
  "srv (net_log w) (Api_call (request_interceptor w req)) = rp \<Longrightarrow> \<not> reply_ok rp \<Longrightarrow>
   api nf srv req w =
     response_error_handler nf srv
       (Axios_error (request_interceptor w req) (reply_response rp))
       (log_call (Api_call (request_interceptor w req)) w)"
  by (cases rp) (simp_all add: api.simps send_def log_call_def Let_def reply_ok_def reply_response_def)

lemma handler_propagates:
  "map_option status resp \<noteq> Some 401 \<or> retry c \<Longrightarrow>
   response_error_handler nf srv (Axios_error c resp) w = (Rejected (Axios_error c resp), w)"
  by (auto simp: response_error_handler.simps)

lemma teardown_eq:
  "set_href ''/login'' (removeItem ''user'' (removeItem ''refresh_token''
     (removeItem ''access_token'' w))) = set_href ''/login'' (clear_session w)"
  by (simp add: set_href_def removeItem_def clear_session_def)

lemma handler_refresh_failed:
  assumes "map_option status resp = Some 401" "\<not> retry c"
    and "getItem w ''refresh_token'' = Some rt" "rt \<noteq> []"
    and "srv (net_log w) (Refresh_call rt) = rp" "\<not> reply_ok rp"
  shows "response_error_handler nf srv (Axios_error c resp) w =
     (Rejected (Refresh_error (reply_response rp)),
      set_href ''/login'' (clear_session (log_call (Refresh_call rt) w)))"
  using assms
  by (cases rp)
     (simp_all add: response_error_handler.simps Let_def item_truthy_def send_def
        reply_ok_def reply_response_def teardown_eq log_call_def)

lemma handler_retries:
  assumes "map_option status resp = Some 401" "\<not> retry c"
    and "getItem w ''refresh_token'' = Some rt" "rt \<noteq> []"
    and "srv (net_log w) (Refresh_call rt) = Reply rr" "validateStatus (status rr)"
    and "\<not> nullish (data rr)"
    and "to_string nf (js_prop (data rr) ''access'') = Some tok"
  shows "response_error_handler nf srv (Axios_error c resp) w =
     api nf srv (c\<lparr>retry := True, authorization := Some (''Bearer '' @ tok)\<rparr>)
       (setItem ''access_token'' tok (log_call (Refresh_call rt) w))"
  using assms
  by (simp add: response_error_handler.simps Let_def item_truthy_def send_def log_call_def)

lemma interceptor_after_refresh:
  "request_interceptor (setItem ''access_token'' tok w)
     (c\<lparr>retry := True, authorization := Some (''Bearer '' @ tok)\<rparr>)
   = c\<lparr>retry := True, authorization := Some (''Bearer '' @ tok)\<rparr>"
  by (simp add: request_interceptor_def getItem_def setItem_def item_truthy_def Let_def)

lemma api_flagged:
  assumes "retry req" "srv (net_log w) (Api_call (request_interceptor w req)) = rp"
  shows "api nf srv req w =
     ((if reply_ok rp then Resolved (the (reply_response rp))
       else Rejected (Axios_error (request_interceptor w req) (reply_response rp))),
      log_call (Api_call (request_interceptor w req)) w)"
proof (cases "reply_ok rp")
  case True
  then obtain r where "rp = Reply r" "validateStatus (status r)"
    by (cases rp) (auto simp: reply_ok_def)
  then show ?thesis using assms True api_resolved [where srv = srv and w = w and req = req and r = r and nf = nf]
    by (simp add: reply_response_def)
next
  case False
  then show ?thesis using assms api_failed [where srv = srv and w = w and req = req and rp = rp and nf = nf] 
    by (simp add: handler_propagates)
qed

text \<open>
  The other ways through the handler on a 401 of an unflagged request: no usable refresh
  token (absent, or the empty string), a refresh response without a body, and an access
  value that has no string conversion.  All remove the session keys and redirect; the
  first rejects with the request's error, now flagged, the others with the TypeError.
\<close>

lemma handler_without_refresh_token:
  assumes "map_option status resp = Some 401" "\<not> retry c"
    and "getItem w ''refresh_token'' = None \<or> getItem w ''refresh_token'' = Some []"
  shows "response_error_handler nf srv (Axios_error c resp) w =
     (Rejected (Axios_error (c\<lparr>retry := True\<rparr>) resp), set_href ''/login'' (clear_session w))"
  using assms
  by (auto simp: response_error_handler.simps Let_def item_truthy_def teardown_eq)

lemma handler_refresh_without_body:
  assumes "map_option status resp = Some 401" "\<not> retry c"
    and "getItem w ''refresh_token'' = Some rt" "rt \<noteq> []"
    and "srv (net_log w) (Refresh_call rt) = Reply rr" "validateStatus (status rr)"
    and "nullish (data rr)"
  shows "response_error_handler nf srv (Axios_error c resp) w =
     (Rejected Type_error, set_href ''/login'' (clear_session (log_call (Refresh_call rt) w)))"
  using assms
  by (simp add: response_error_handler.simps Let_def item_truthy_def send_def teardown_eq
        log_call_def)

lemma handler_refresh_unconvertible:
  assumes "map_option status resp = Some 401" "\<not> retry c"
    and "getItem w ''refresh_token'' = Some rt" "rt \<noteq> []"
    and "srv (net_log w) (Refresh_call rt) = Reply rr" "validateStatus (status rr)"
    and "\<not> nullish (data rr)"
    and "to_string nf (js_prop (data rr) ''access'') = None"
  shows "response_error_handler nf srv (Axios_error c resp) w =
     (Rejected Type_error, set_href ''/login'' (clear_session (log_call (Refresh_call rt) w)))"
  using assms
  by (simp add: response_error_handler.simps Let_def item_truthy_def send_def teardown_eq
        log_call_def)

text \<open>
  C1.  A request is answered with a 401.  If it is not flagged as retried, the stored
  refresh token is non-empty and the refresh endpoint answers with a body, whose
  \<^verbatim>\<open>access\<close>, as a string, is the new access token, then the calls made are exactly the request, one
  refresh call and the retried request; the new access token is stored and nothing else
  changes in the browser; the retried request is flagged and carries the new bearer
  token; and the caller gets the outcome of the retried request.  If the request is
  already flagged, the 401 is rejected to the caller and the request is the only call.
\<close>

theorem refresh_and_retry_once:
  assumes cfg: "config = request_interceptor w req"
    and first: "srv (net_log w) (Api_call config) = Reply r"
    and unauth: "status r = 401"
  shows "(\<not> retry req \<and> getItem w ''refresh_token'' = Some rt \<and> rt \<noteq> []
          \<and> srv (net_log w @ [Api_call config]) (Refresh_call rt) = Reply rr
          \<and> validateStatus (status rr) \<and> \<not> nullish (data rr)
          \<and> to_string nf (js_prop (data rr) ''access'') = Some tok \<longrightarrow>
          (let req2 = config\<lparr>retry := True, authorization := Some (''Bearer '' @ tok)\<rparr>;
               w2 = w\<lparr>localStorage := (localStorage w)(''access_token'' \<mapsto> tok),
                      net_log := net_log w @ [Api_call config, Refresh_call rt]\<rparr>;
               w3 = w2\<lparr>net_log := net_log w2 @ [Api_call req2]\<rparr>
           in api nf srv req w =
                (case srv (net_log w2) (Api_call req2) of
                   Reply r2 \<Rightarrow>
                     if validateStatus (status r2) then (Resolved r2, w3)
                     else (Rejected (Axios_error req2 (Some r2)), w3)
                 | No_response \<Rightarrow> (Rejected (Axios_error req2 None), w3))))
       \<and> (retry req \<longrightarrow>
            api nf srv req w =
              (Rejected (Axios_error config (Some r)),
               w\<lparr>net_log := net_log w @ [Api_call config]\<rparr>))"
proof -
  have nok: "\<not> reply_ok (Reply r)"
    using unauth by (simp add: reply_ok_def validateStatus_def)
  have step: "api nf srv req w =
      response_error_handler nf srv (Axios_error config (Some r)) (log_call (Api_call config) w)"
    using api_failed [where srv = srv and w = w and req = req and rp = "Reply r" and nf = nf] first nok cfg
    by (simp add: reply_response_def)
  have flagged: "retry req \<Longrightarrow>
      api nf srv req w =
        (Rejected (Axios_error config (Some r)), w\<lparr>net_log := net_log w @ [Api_call config]\<rparr>)"
    using step cfg by (simp add: handler_propagates log_call_def)
  have fresh: "(let req2 = config\<lparr>retry := True, authorization := Some (''Bearer '' @ tok)\<rparr>;
               w2 = w\<lparr>localStorage := (localStorage w)(''access_token'' \<mapsto> tok),
                      net_log := net_log w @ [Api_call config, Refresh_call rt]\<rparr>;
               w3 = w2\<lparr>net_log := net_log w2 @ [Api_call req2]\<rparr>
           in api nf srv req w = (case srv (net_log w2) (Api_call req2) of
                   Reply r2 \<Rightarrow>
                     if validateStatus (status r2) then (Resolved r2, w3)
                     else (Rejected (Axios_error req2 (Some r2)), w3)
                 | No_response \<Rightarrow> (Rejected (Axios_error req2 None), w3)))"
    if nr: "\<not> retry req" and tk: "getItem w ''refresh_token'' = Some rt" "rt \<noteq> []"
      and rf: "srv (net_log w @ [Api_call config]) (Refresh_call rt) = Reply rr"
        "validateStatus (status rr)" and nn: "\<not> nullish (data rr)"
      and acc: "to_string nf (js_prop (data rr) ''access'') = Some tok"
  proof -
    let ?w1 = "log_call (Api_call config) w"
    let ?req2 = "config\<lparr>retry := True, authorization := Some (''Bearer '' @ tok)\<rparr>"
    let ?w2' = "setItem ''access_token'' tok (log_call (Refresh_call rt) ?w1)"
    have h: "response_error_handler nf srv (Axios_error config (Some r)) ?w1 = api nf srv ?req2 ?w2'"
      using handler_retries [where resp = "Some r" and c = config and w = ?w1 and rt = rt
              and srv = srv and rr = rr and nf = nf and tok = tok] unauth nr cfg tk rf nn acc
      by (simp add: log_call_def getItem_def)
    have i: "request_interceptor ?w2' ?req2 = ?req2"
      by (rule interceptor_after_refresh)
    have w2: "?w2' = w\<lparr>localStorage := (localStorage w)(''access_token'' \<mapsto> tok),
                      net_log := net_log w @ [Api_call config, Refresh_call rt]\<rparr>"
      by (simp add: setItem_def log_call_def)
    have f: "api nf srv ?req2 ?w2' =
       ((if reply_ok (srv (net_log ?w2') (Api_call ?req2))
         then Resolved (the (reply_response (srv (net_log ?w2') (Api_call ?req2))))
         else Rejected (Axios_error ?req2 (reply_response (srv (net_log ?w2') (Api_call ?req2))))),
        log_call (Api_call ?req2) ?w2')"
      using api_flagged [where req = ?req2 and srv = srv and w = ?w2' and nf = nf
              and rp = "srv (net_log ?w2') (Api_call ?req2)"] i
      by simp
    show ?thesis
      unfolding Let_def step h f unfolding w2
      by (cases "srv (net_log w @ [Api_call config, Refresh_call rt]) (Api_call ?req2)")
         (simp_all add: Let_def reply_ok_def reply_response_def log_call_def)
  qed
  show ?thesis using flagged fresh by blast
qed

theorem refresh_and_retry_once_witness:
  "api int_to_string server_refresh_ok demo_request demo_browser =
     (Resolved \<lparr>status = 200, data = Arr []\<rparr>,
      \<lparr>localStorage = [''access_token'' \<mapsto> ''new'', ''refresh_token'' \<mapsto> ''r1'',
                       ''user'' \<mapsto> ''{}''],
       navigations = [],
       net_log = [Api_call (demo_request\<lparr>authorization := Some ''Bearer old''\<rparr>),
                  Refresh_call ''r1'',
                  Api_call (demo_request\<lparr>authorization := Some ''Bearer new'',
                                            retry := True\<rparr>)]\<rparr>)
   \<and> api int_to_string server_refresh_ok (demo_request\<lparr>retry := True\<rparr>) demo_browser =
     (Rejected (Axios_error (demo_request\<lparr>authorization := Some ''Bearer old'',
                                             retry := True\<rparr>)
                  (Some \<lparr>status = 401, data = Null\<rparr>)),
      demo_browser\<lparr>net_log := [Api_call (demo_request\<lparr>authorization := Some ''Bearer old'',
                                                           retry := True\<rparr>)]\<rparr>)"
proof -
  have c1: "request_interceptor demo_browser demo_request
              = demo_request\<lparr>authorization := Some ''Bearer old''\<rparr>"
    by (simp add: request_interceptor_def getItem_def item_truthy_def demo_browser_def Let_def)
  have c2: "request_interceptor demo_browser (demo_request\<lparr>retry := True\<rparr>)
              = demo_request\<lparr>authorization := Some ''Bearer old'', retry := True\<rparr>"
    by (simp add: request_interceptor_def getItem_def item_truthy_def demo_browser_def Let_def
          demo_request_def)
  have f1: "server_refresh_ok (net_log demo_browser)
              (Api_call (demo_request\<lparr>authorization := Some ''Bearer old''\<rparr>))
            = Reply \<lparr>status = 401, data = Null\<rparr>"
    by (simp add: server_refresh_ok_def demo_request_def)
  have f2: "server_refresh_ok (net_log demo_browser)
              (Api_call (demo_request\<lparr>authorization := Some ''Bearer old'', retry := True\<rparr>))
            = Reply \<lparr>status = 401, data = Null\<rparr>"
    by (simp add: server_refresh_ok_def demo_request_def)
  have s: "status \<lparr>status = 401, data = Null\<rparr> = 401" by simp
  have a: "api int_to_string server_refresh_ok demo_request demo_browser =
     (Resolved \<lparr>status = 200, data = Arr []\<rparr>,
      \<lparr>localStorage = [''access_token'' \<mapsto> ''new'', ''refresh_token'' \<mapsto> ''r1'',
                       ''user'' \<mapsto> ''{}''],
       navigations = [],
       net_log = [Api_call (demo_request\<lparr>authorization := Some ''Bearer old''\<rparr>),
                  Refresh_call ''r1'',
                  Api_call (demo_request\<lparr>authorization := Some ''Bearer new'',
                                            retry := True\<rparr>)]\<rparr>)"
    using refresh_and_retry_once [where config = "demo_request\<lparr>authorization := Some ''Bearer old''\<rparr>"
            and nf = int_to_string and w = demo_browser and req = demo_request and srv = server_refresh_ok
            and r = "\<lparr>status = 401, data = Null\<rparr>" and rt = "''r1''"
            and rr = "\<lparr>status = 200, data = Obj [(''access'', Str ''new'')]\<rparr>"
            and tok = "''new''"] c1 f1
    by (simp add: demo_request_def demo_browser_def getItem_def server_refresh_ok_def
          validateStatus_def nullish_def Let_def fun_upd_twist)
  have b: "api int_to_string server_refresh_ok (demo_request\<lparr>retry := True\<rparr>) demo_browser =
     (Rejected (Axios_error (demo_request\<lparr>authorization := Some ''Bearer old'',
                                             retry := True\<rparr>)
                  (Some \<lparr>status = 401, data = Null\<rparr>)),
      demo_browser\<lparr>net_log := [Api_call (demo_request\<lparr>authorization := Some ''Bearer old'',
                                                           retry := True\<rparr>)]\<rparr>)"
    using refresh_and_retry_once [where config = "demo_request\<lparr>authorization := Some ''Bearer old'', retry := True\<rparr>"
            and nf = int_to_string and w = demo_browser and req = "demo_request\<lparr>retry := True\<rparr>"
            and srv = server_refresh_ok and r = "\<lparr>status = 401, data = Null\<rparr>"] c2 f2
    by (simp add: demo_request_def demo_browser_def)
  show ?thesis using a b by blast
qed

text \<open>
  C2.  A request that is not flagged is answered with a 401, a non-empty refresh token is
  stored, and the refresh call fails (no response, or a status outside 200 to 299).  Then
  the three session keys are removed, \<^verbatim>\<open>window.location.href\<close> is set to \<^verbatim>\<open>/login\<close>, and
  the caller is rejected with the error of the refresh call, not with the 401 error of
  the request.
\<close>

theorem refresh_failure_tears_down:
  assumes cfg: "config = request_interceptor w req"
    and first: "srv (net_log w) (Api_call config) = Reply r"
    and unauth: "status r = 401"
    and nr: "\<not> retry req"
    and tk: "getItem w ''refresh_token'' = Some rt" "rt \<noteq> []"
    and rf: "srv (net_log w @ [Api_call config]) (Refresh_call rt) = rp"
    and failed: "case rp of Reply rr \<Rightarrow> \<not> validateStatus (status rr) | No_response \<Rightarrow> True"
  shows "api nf srv req w =
           (Rejected (Refresh_error (case rp of Reply rr \<Rightarrow> Some rr | No_response \<Rightarrow> None)),
            w\<lparr>localStorage := (localStorage w)
                  (''access_token'' := None, ''refresh_token'' := None, ''user'' := None),
              navigations := navigations w @ [''/login''],
              net_log := net_log w @ [Api_call config, Refresh_call rt]\<rparr>)
       \<and> fst (api nf srv req w) \<noteq> Rejected (Axios_error config (Some r))"
proof -
  have nok: "\<not> reply_ok (Reply r)"
    using unauth by (simp add: reply_ok_def validateStatus_def)
  have step: "api nf srv req w =
      response_error_handler nf srv (Axios_error config (Some r)) (log_call (Api_call config) w)"
    using api_failed [where srv = srv and w = w and req = req and rp = "Reply r" and nf = nf] first nok cfg
    by (simp add: reply_response_def)
  have nok2: "\<not> reply_ok rp"
    using failed by (cases rp) (simp_all add: reply_ok_def)
  have h: "response_error_handler nf srv (Axios_error config (Some r)) (log_call (Api_call config) w)
      = (Rejected (Refresh_error (reply_response rp)),
         set_href ''/login'' (clear_session (log_call (Refresh_call rt)
           (log_call (Api_call config) w))))"
    using handler_refresh_failed [where resp = "Some r" and c = config
        and w = "log_call (Api_call config) w" and rt = rt and srv = srv and rp = rp and nf = nf]
      unauth nr cfg tk rf nok2
    by (simp add: log_call_def getItem_def)
  show ?thesis
    unfolding step h
    by (simp add: reply_response_def set_href_def clear_session_def log_call_def)
qed

theorem refresh_failure_tears_down_witness:
  "api int_to_string (constant_server (Reply \<lparr>status = 401, data = Null\<rparr>)) demo_request demo_browser =
     (Rejected (Refresh_error (Some \<lparr>status = 401, data = Null\<rparr>)),
      \<lparr>localStorage = Map.empty,
       navigations = [''/login''],
       net_log = [Api_call (demo_request\<lparr>authorization := Some ''Bearer old''\<rparr>),
                  Refresh_call ''r1'']\<rparr>)"
proof -
  have c1: "request_interceptor demo_browser demo_request
              = demo_request\<lparr>authorization := Some ''Bearer old''\<rparr>"
    by (simp add: request_interceptor_def getItem_def item_truthy_def demo_browser_def Let_def)
  have f1: "(constant_server (Reply \<lparr>status = 401, data = Null\<rparr>)) (net_log demo_browser)
              (Api_call (demo_request\<lparr>authorization := Some ''Bearer old''\<rparr>))
            = Reply \<lparr>status = 401, data = Null\<rparr>"
    by (simp add: constant_server_def)
  have s: "status \<lparr>status = 401, data = Null\<rparr> = 401" by simp
  have nr: "\<not> retry demo_request" by (simp add: demo_request_def)
  have tk: "getItem demo_browser ''refresh_token'' = Some ''r1''"
    by (simp add: getItem_def demo_browser_def)
  have ne: "''r1'' \<noteq> []" by simp
  have rf: "(constant_server (Reply \<lparr>status = 401, data = Null\<rparr>))
              (net_log demo_browser @ [Api_call (demo_request\<lparr>authorization := Some ''Bearer old''\<rparr>)])
              (Refresh_call ''r1'') = Reply \<lparr>status = 401, data = Null\<rparr>"
    by (simp add: constant_server_def)
  have fl: "case Reply \<lparr>status = 401, data = Null\<rparr> of
              Reply rr \<Rightarrow> \<not> validateStatus (status rr) | No_response \<Rightarrow> True"
    by (simp add: validateStatus_def)
  show ?thesis
    using refresh_failure_tears_down [where config = "demo_request\<lparr>authorization := Some ''Bearer old''\<rparr>"
            and nf = int_to_string and w = demo_browser and req = demo_request and srv = "constant_server (Reply \<lparr>status = 401, data = Null\<rparr>)"
            and r = "\<lparr>status = 401, data = Null\<rparr>" and rt = "''r1''"
            and rp = "Reply \<lparr>status = 401, data = Null\<rparr>"] c1 f1 s nr tk ne rf fl
    by (simp add: demo_browser_def)
qed

text \<open>
  C8.  A request that gets no response is rejected to the caller with its own error, and
  the browser changes by the logged request only: no refresh call, no storage write, no
  redirect.  The same holds for every reply whose status is not 401, so the refresh flow
  starts on a 401 only.
\<close>

theorem network_failure_propagates:
  assumes cfg: "config = request_interceptor w req"
    and rp: "rp = srv (net_log w) (Api_call config)"
  shows "(rp = No_response \<longrightarrow>
            api nf srv req w =
              (Rejected (Axios_error config None),
               w\<lparr>net_log := net_log w @ [Api_call config]\<rparr>))
       \<and> (rp = Reply r \<and> status r \<noteq> 401 \<and> \<not> validateStatus (status r) \<longrightarrow>
            api nf srv req w =
              (Rejected (Axios_error config (Some r)),
               w\<lparr>net_log := net_log w @ [Api_call config]\<rparr>))
       \<and> (rp = Reply r \<and> validateStatus (status r) \<longrightarrow>
            api nf srv req w =
              (Resolved r, w\<lparr>net_log := net_log w @ [Api_call config]\<rparr>))"
proof -
  have a: "rp = No_response \<Longrightarrow>
           api nf srv req w =
             (Rejected (Axios_error config None), w\<lparr>net_log := net_log w @ [Api_call config]\<rparr>)"
    using api_failed [where srv = srv and w = w and req = req and rp = No_response and nf = nf] cfg rp
    by (simp add: handler_propagates log_call_def reply_ok_def reply_response_def)
  have b: "rp = Reply r \<Longrightarrow> status r \<noteq> 401 \<Longrightarrow> \<not> validateStatus (status r) \<Longrightarrow>
           api nf srv req w =
             (Rejected (Axios_error config (Some r)),
              w\<lparr>net_log := net_log w @ [Api_call config]\<rparr>)"
    using api_failed [where srv = srv and w = w and req = req and rp = "Reply r" and nf = nf] cfg rp
    by (simp add: handler_propagates log_call_def reply_ok_def reply_response_def)
  have c: "rp = Reply r \<Longrightarrow> validateStatus (status r) \<Longrightarrow>
           api nf srv req w = (Resolved r, w\<lparr>net_log := net_log w @ [Api_call config]\<rparr>)"
    using api_resolved [where srv = srv and w = w and req = req and r = r and nf = nf] cfg rp by (simp add: log_call_def)
  show ?thesis using a b c by blast
qed

theorem network_failure_propagates_witness:
  "api int_to_string (constant_server No_response) demo_request demo_browser =
     (Rejected (Axios_error (demo_request\<lparr>authorization := Some ''Bearer old''\<rparr>) None),
      demo_browser\<lparr>net_log := [Api_call (demo_request\<lparr>authorization := Some ''Bearer old''\<rparr>)]\<rparr>)
   \<and> api int_to_string (constant_server (Reply \<lparr>status = 500, data = Null\<rparr>)) demo_request demo_browser =
     (Rejected (Axios_error (demo_request\<lparr>authorization := Some ''Bearer old''\<rparr>)
                  (Some \<lparr>status = 500, data = Null\<rparr>)),
      demo_browser\<lparr>net_log := [Api_call (demo_request\<lparr>authorization := Some ''Bearer old''\<rparr>)]\<rparr>)
   \<and> api int_to_string (constant_server (Reply \<lparr>status = 200, data = Arr []\<rparr>)) demo_request demo_browser =
     (Resolved \<lparr>status = 200, data = Arr []\<rparr>,
      demo_browser\<lparr>net_log := [Api_call (demo_request\<lparr>authorization := Some ''Bearer old''\<rparr>)]\<rparr>)"
proof -
  have c1: "demo_request\<lparr>authorization := Some ''Bearer old''\<rparr>
              = request_interceptor demo_browser demo_request"
    by (simp add: request_interceptor_def getItem_def item_truthy_def demo_browser_def Let_def)
  have r: "rp = constant_server rp (net_log demo_browser)
             (Api_call (demo_request\<lparr>authorization := Some ''Bearer old''\<rparr>))" for rp
    by (simp add: constant_server_def)
  have e: "net_log demo_browser = []" by (simp add: demo_browser_def)
  have a: "api int_to_string (constant_server No_response) demo_request demo_browser =
     (Rejected (Axios_error (demo_request\<lparr>authorization := Some ''Bearer old''\<rparr>) None),
      demo_browser\<lparr>net_log := [Api_call (demo_request\<lparr>authorization := Some ''Bearer old''\<rparr>)]\<rparr>)"
    using network_failure_propagates [where config = "demo_request\<lparr>authorization := Some ''Bearer old''\<rparr>"
        and nf = int_to_string and w = demo_browser and req = demo_request and rp = No_response
        and srv = "constant_server No_response", OF c1 r] e
    by simp
  have b: "api int_to_string (constant_server (Reply \<lparr>status = 500, data = Null\<rparr>)) demo_request demo_browser =
     (Rejected (Axios_error (demo_request\<lparr>authorization := Some ''Bearer old''\<rparr>)
                  (Some \<lparr>status = 500, data = Null\<rparr>)),
      demo_browser\<lparr>net_log := [Api_call (demo_request\<lparr>authorization := Some ''Bearer old''\<rparr>)]\<rparr>)"
    using network_failure_propagates [where config = "demo_request\<lparr>authorization := Some ''Bearer old''\<rparr>"
        and nf = int_to_string and w = demo_browser and req = demo_request
        and rp = "Reply \<lparr>status = 500, data = Null\<rparr>"
        and r = "\<lparr>status = 500, data = Null\<rparr>"
        and srv = "constant_server (Reply \<lparr>status = 500, data = Null\<rparr>)", OF c1 r] e
    by (simp add: validateStatus_def)
  have c: "api int_to_string (constant_server (Reply \<lparr>status = 200, data = Arr []\<rparr>)) demo_request demo_browser =
     (Resolved \<lparr>status = 200, data = Arr []\<rparr>,
      demo_browser\<lparr>net_log := [Api_call (demo_request\<lparr>authorization := Some ''Bearer old''\<rparr>)]\<rparr>)"
    using network_failure_propagates [where config = "demo_request\<lparr>authorization := Some ''Bearer old''\<rparr>"
        and nf = int_to_string and w = demo_browser and req = demo_request
        and rp = "Reply \<lparr>status = 200, data = Arr []\<rparr>"
        and r = "\<lparr>status = 200, data = Arr []\<rparr>"
        and srv = "constant_server (Reply \<lparr>status = 200, data = Arr []\<rparr>)", OF c1 r] e
    by (simp add: validateStatus_def)
  show ?thesis using a b c by blast
qed

section \<open>Properties of session restore\<close>

text \<open>
  C10.  When the stored user or the stored access token is absent, \<open>initAuth\<close> sets the
  user to \<^verbatim>\<open>null\<close>, marks the session unauthenticated, ends loading, and leaves the
  browser as it was: no network call, no storage key removed or written.
\<close>

theorem restore_without_both_keys:
  assumes "localStorage w ''user'' = None \<or> localStorage w ''access_token'' = None"
  shows "initAuth nf stringify srv (s, w) =
           (s\<lparr>user := Null, isAuthenticated := False, loading := False\<rparr>, w)"
  using assms by (auto simp: initAuth_def getItem_def item_truthy_def Let_def)

theorem restore_without_both_keys_witness:
  "initAuth int_to_string (\<lambda>v. ''{}'') server_refresh_ok
     (\<lparr>user = Null, loading = True, isAuthenticated = False\<rparr>,
      \<lparr>localStorage = [''user'' \<mapsto> ''{}''], navigations = [], net_log = []\<rparr>)
   = (\<lparr>user = Null, loading = False, isAuthenticated = False\<rparr>,
      \<lparr>localStorage = [''user'' \<mapsto> ''{}''], navigations = [], net_log = []\<rparr>)"
  using restore_without_both_keys [where w = "\<lparr>localStorage = [''user'' \<mapsto> ''{}''], navigations = [], net_log = []\<rparr>"
     and nf = int_to_string and stringify = "\<lambda>v. ''{}''" and srv = server_refresh_ok
     and s = "\<lparr>user = Null, loading = True, isAuthenticated = False\<rparr>"]
  by simp

end
